theory Spec2Isabelle
  imports Complex_Main
begin

section \<open>Parametric equalizer: data model\<close>

text \<open>
  The development embeds \<^verbatim>\<open>audio_processor.py\<close> and the preset logic of
  \<^verbatim>\<open>equalizer.py\<close>. Samples, coefficients and filter memory are real numbers:
  arithmetic is exact, so the statements below are the ideal ones that the floating-point
  program approximates (rounding, overflow and non-finite values are not represented).
  Exceptions of the Python program are values of type \<open>py_error\<close>.
\<close>

datatype py_error = IndexError | ValueError | KeyError | LinAlgError

text \<open>Class \<^verbatim>\<open>EqualizerBand\<close>: three plain attributes.\<close>

record EqualizerBand =
  frequency :: real
  gain_db :: real
  q_factor :: real

type_synonym coeffs = "real \<times> real \<times> real"

text \<open>A filter state is the two-tap delay line of one biquad section.\<close>

type_synonym delay_line = "real \<times> real"

subsection \<open>Coefficient derivation\<close>

text \<open>
  \<^verbatim>\<open>EqualizerBand.get_filter_coefficients\<close>, line by line. The result is the pair
  \<open>(b, a)\<close> of three-element arrays.
\<close>

definition get_filter_coefficients :: "EqualizerBand \<Rightarrow> real \<Rightarrow> coeffs \<times> coeffs" where
  "get_filter_coefficients band sample_rate =
     (let gain_linear = 10 powr (gain_db band / 20);
          w0 = 2 * pi * frequency band / sample_rate;
          alpha = sin w0 / (2 * q_factor band);
          cos_w0 = cos w0;
          b0 = 1 + alpha * gain_linear;
          b1 = - 2 * cos_w0;
          b2 = 1 - alpha * gain_linear;
          a0 = 1 + alpha / gain_linear;
          a1 = - 2 * cos_w0;
          a2 = 1 - alpha / gain_linear
      in ((b0 / a0, b1 / a0, b2 / a0), (1, a1 / a0, a2 / a0)))"

text \<open>
  The formula of the specification (section 4.1), written with the specification's names.
\<close>

definition spec_gainLinear :: "real \<Rightarrow> real" where
  "spec_gainLinear G = 10 powr (G / 20)"

definition spec_w0 :: "real \<Rightarrow> real \<Rightarrow> real" where
  "spec_w0 f0 fs = 2 * pi * f0 / fs"

definition spec_alpha :: "real \<Rightarrow> real \<Rightarrow> real \<Rightarrow> real" where
  "spec_alpha f0 Q fs = sin (spec_w0 f0 fs) / (2 * Q)"

definition spec_a0raw :: "real \<Rightarrow> real \<Rightarrow> real \<Rightarrow> real \<Rightarrow> real" where
  "spec_a0raw f0 G Q fs = 1 + spec_alpha f0 Q fs / spec_gainLinear G"

definition spec_b :: "real \<Rightarrow> real \<Rightarrow> real \<Rightarrow> real \<Rightarrow> coeffs" where
  "spec_b f0 G Q fs =
     ((1 + spec_alpha f0 Q fs * spec_gainLinear G) / spec_a0raw f0 G Q fs,
      (- 2 * cos (spec_w0 f0 fs)) / spec_a0raw f0 G Q fs,
      (1 - spec_alpha f0 Q fs * spec_gainLinear G) / spec_a0raw f0 G Q fs)"

definition spec_a :: "real \<Rightarrow> real \<Rightarrow> real \<Rightarrow> real \<Rightarrow> coeffs" where
  "spec_a f0 G Q fs =
     (1,
      (- 2 * cos (spec_w0 f0 fs)) / spec_a0raw f0 G Q fs,
      (1 - spec_alpha f0 Q fs / spec_gainLinear G) / spec_a0raw f0 G Q fs)"

text \<open>The domain of section 4.1: \<open>0 < f0 < fs/2\<close>, \<open>Q > 0\<close>, \<open>fs > 0\<close>.\<close>

definition valid_band :: "real \<Rightarrow> EqualizerBand \<Rightarrow> bool" where
  "valid_band sample_rate band \<longleftrightarrow>
     0 < sample_rate \<and> 0 < frequency band \<and> frequency band < sample_rate / 2
       \<and> 0 < q_factor band"

section \<open>Filtering primitives\<close>

text \<open>
  \<^verbatim>\<open>scipy.signal.lfilter\<close> for a second-order section: the transposed direct form II
  recurrence documented for that function. In every call of this program \<open>a[0]\<close> is the
  constant 1 that \<open>get_filter_coefficients\<close> stores, so the library's normalisation
  by \<open>a[0]\<close> is the identity and is not written out. The function returns the output
  block together with the final delay line; an empty block gives an empty output and
  leaves the delay line as it was.
\<close>

definition lfilter_step :: "coeffs \<Rightarrow> coeffs \<Rightarrow> delay_line \<Rightarrow> real \<Rightarrow> real \<times> delay_line" where
  "lfilter_step b a z x =
     (case b of (b0, b1, b2) \<Rightarrow> case a of (a0, a1, a2) \<Rightarrow> case z of (z0, z1) \<Rightarrow>
        let y = b0 * x + z0
        in (y, (b1 * x - a1 * y + z1, b2 * x - a2 * y)))"

fun lfilter :: "coeffs \<Rightarrow> coeffs \<Rightarrow> real list \<Rightarrow> delay_line \<Rightarrow> real list \<times> delay_line" where
  "lfilter b a [] zi = ([], zi)"
| "lfilter b a (x # xs) zi =
     (case lfilter_step b a zi x of (y, z) \<Rightarrow>
        case lfilter b a xs z of (ys, zf) \<Rightarrow> (y # ys, zf))"

text \<open>
  \<^verbatim>\<open>scipy.signal.lfilter_zi\<close> for a second-order section with \<open>a[0] = 1\<close>: the
  solution \<open>zi\<close> of \<open>(I - A\<^sup>T) zi = B\<close> with \<open>B = b[1:] - a[1:] * b[0]\<close>, where \<open>A\<close> is
  the companion matrix of \<open>a\<close>. The determinant of the system is \<open>1 + a1 + a2\<close>; the
  library's linear solver raises \<^verbatim>\<open>LinAlgError\<close> on a singular matrix.
\<close>

definition lfilter_zi :: "coeffs \<Rightarrow> coeffs \<Rightarrow> py_error + delay_line" where
  "lfilter_zi b a =
     (case b of (b0, b1, b2) \<Rightarrow> case a of (a0, a1, a2) \<Rightarrow>
        if 1 + a1 + a2 = 0 then Inl LinAlgError
        else let B0 = b1 - a1 * b0;
                 B1 = b2 - a2 * b0;
                 zi0 = (B0 + B1) / (1 + a1 + a2);
                 zi1 = (1 + a1) * zi0 - B0
             in Inr (zi0, zi1))"

text \<open>
  \<^verbatim>\<open>numpy.linspace(start, stop, num)\<close>: a negative \<open>num\<close> raises \<^verbatim>\<open>ValueError\<close>;
  otherwise \<open>num\<close> evenly spaced values, the step being \<open>(stop - start) / (num - 1)\<close>
  when \<open>num > 1\<close>.
\<close>

definition linspace_vals :: "real \<Rightarrow> real \<Rightarrow> nat \<Rightarrow> real list" where
  "linspace_vals start stop num =
     (let dv = num - 1; delta = stop - start
      in if 0 < dv then map (\<lambda>i. start + real i * (delta / real dv)) [0..<num]
         else map (\<lambda>i. start + real i * delta) [0..<num])"

definition linspace :: "real \<Rightarrow> real \<Rightarrow> int \<Rightarrow> py_error + real list" where
  "linspace start stop num =
     (if num < 0 then Inl ValueError else Inr (linspace_vals start stop (nat num)))"

text \<open>\<^verbatim>\<open>numpy.logspace(start, stop, num)\<close> is \<open>10 ** linspace(start, stop, num)\<close>.\<close>

definition logspace :: "real \<Rightarrow> real \<Rightarrow> nat \<Rightarrow> real list" where
  "logspace start stop num = map (\<lambda>e. 10 powr e) (linspace_vals start stop num)"

text \<open>
  In-place multiplication \<^verbatim>\<open>xs *= ys\<close> of one-dimensional arrays: equal lengths
  multiply elementwise, a one-element right operand is broadcast, and any other pair of
  shapes raises \<^verbatim>\<open>ValueError\<close>.
\<close>

definition imul :: "real list \<Rightarrow> real list \<Rightarrow> py_error + real list" where
  "imul xs ys =
     (if length xs = length ys then Inr (map2 (*) xs ys)
      else if length ys = 1 then Inr (map (\<lambda>x. x * hd ys) xs)
      else Inl ValueError)"

text \<open>
  \<^verbatim>\<open>scipy.signal.freqz(b, a, worN=frequencies, fs=fs)\<close>: the transfer function
  evaluated at \<open>z\<^sup>-\<^sup>1 = exp(-j w)\<close>, \<open>w = 2 pi f / fs\<close>, for each given frequency.
\<close>

definition freqz :: "coeffs \<Rightarrow> coeffs \<Rightarrow> real list \<Rightarrow> real \<Rightarrow> complex list" where
  "freqz b a worN fs =
     (case b of (b0, b1, b2) \<Rightarrow> case a of (a0, a1, a2) \<Rightarrow>
        map (\<lambda>f. let w = 2 * pi * f / fs; zm1 = cis (- w)
                 in (of_real b0 + of_real b1 * zm1 + of_real b2 * zm1 ^ 2)
                    / (of_real a0 + of_real a1 * zm1 + of_real a2 * zm1 ^ 2)) worN)"

section \<open>The filter chain\<close>

text \<open>
  Class \<^verbatim>\<open>AudioProcessor\<close>. An entry of \<open>filter_states\<close> is \<open>None\<close> until the band
  has filtered its first block.
\<close>

record AudioProcessor =
  sample_rate :: real
  bands :: "EqualizerBand list"
  filter_states :: "delay_line option list"

definition AudioProcessor_init :: "real \<Rightarrow> AudioProcessor" where
  "AudioProcessor_init sr = \<lparr>sample_rate = sr, bands = [], filter_states = []\<rparr>"

definition add_band :: "AudioProcessor \<Rightarrow> real \<Rightarrow> real \<Rightarrow> real \<Rightarrow> AudioProcessor" where
  "add_band p f g q =
     (let band = \<lparr>frequency = f, gain_db = g, q_factor = q\<rparr>;
          p1 = p\<lparr>bands := bands p @ [band]\<rparr>
      in p1\<lparr>filter_states := filter_states p1 @ [None]\<rparr>)"

definition clear_bands :: "AudioProcessor \<Rightarrow> AudioProcessor" where
  "clear_bands p = (p\<lparr>bands := []\<rparr>)\<lparr>filter_states := []\<rparr>"

definition reset_states :: "AudioProcessor \<Rightarrow> AudioProcessor" where
  "reset_states p = p\<lparr>filter_states := replicate (length (bands p)) None\<rparr>"

text \<open>
  The body of the loop of \<^verbatim>\<open>process_block\<close> for one band, after the state has been
  read: with no state yet, the initial condition is \<open>lfilter_zi(b, a) * processed[0]\<close>
  (the library call is evaluated first, then the first sample is read, which raises
  \<^verbatim>\<open>IndexError\<close> on an empty block); otherwise filtering continues from the stored state.
\<close>

definition filter_band ::
  "coeffs \<Rightarrow> coeffs \<Rightarrow> delay_line option \<Rightarrow> real list \<Rightarrow> py_error + (real list \<times> delay_line)" where
  "filter_band b a state processed =
     (case state of
        None \<Rightarrow>
          (case lfilter_zi b a of
             Inl e \<Rightarrow> Inl e
           | Inr zi \<Rightarrow>
               (case processed of
                  [] \<Rightarrow> Inl IndexError
                | x0 # _ \<Rightarrow> Inr (lfilter b a processed (fst zi * x0, snd zi * x0))))
      | Some z \<Rightarrow> Inr (lfilter b a processed z))"

text \<open>
  The loop \<^verbatim>\<open>for i, band in enumerate(self.bands)\<close>. The list of states is updated in
  place as the loop advances, so an exception leaves the states written so far; the
  model returns them beside the error.
\<close>

fun band_loop ::
  "real \<Rightarrow> EqualizerBand list \<Rightarrow> nat \<Rightarrow> real list \<Rightarrow> delay_line option list
     \<Rightarrow> (py_error + real list) \<times> delay_line option list" where
  "band_loop sr [] i processed st = (Inr processed, st)"
| "band_loop sr (band # rest) i processed st =
     (case get_filter_coefficients band sr of (b, a) \<Rightarrow>
        if length st \<le> i then (Inl IndexError, st)
        else case filter_band b a (st ! i) processed of
               Inl e \<Rightarrow> (Inl e, st)
             | Inr (y, zf) \<Rightarrow> band_loop sr rest (Suc i) y (st[i := Some zf]))"

text \<open>
  \<^verbatim>\<open>process_block\<close>. With no band the argument itself is returned. The conversion
  \<^verbatim>\<open>astype(np.float32)\<close> is the identity on real samples.
\<close>

definition process_block ::
  "AudioProcessor \<Rightarrow> real list \<Rightarrow> (py_error + real list) \<times> AudioProcessor" where
  "process_block p audio_data =
     (if length (bands p) = 0 then (Inr audio_data, p)
      else let processed = audio_data
           in case band_loop (sample_rate p) (bands p) 0 processed (filter_states p) of
                (r, st) \<Rightarrow> (r, p\<lparr>filter_states := st\<rparr>))"

text \<open>
  \<^verbatim>\<open>get_frequency_response\<close>. The model returns the processor beside the result, so
  that what the call leaves behind can be stated.
\<close>

definition get_frequency_response ::
  "AudioProcessor \<Rightarrow> real list option
     \<Rightarrow> (real list \<times> real list \<times> real list) \<times> AudioProcessor" where
  "get_frequency_response p freqs =
     (let frequencies =
            (case freqs of
               None \<Rightarrow> logspace 1 (log 10 (sample_rate p / 2)) 1000
             | Some fr \<Rightarrow> fr);
          total_response =
            fold (\<lambda>band tr.
                    case get_filter_coefficients band (sample_rate p) of (b, a) \<Rightarrow>
                      map2 (*) tr (freqz b a frequencies (sample_rate p)))
                 (bands p) (replicate (length frequencies) (1::complex));
          magnitude_db = map (\<lambda>c. 20 * log 10 (cmod c)) total_response;
          phase = map Arg total_response
      in ((frequencies, magnitude_db, phase), p))"

text \<open>
  The live gain change of \<^verbatim>\<open>equalizer_gui.py\<close> (\<^verbatim>\<open>_on_band_changed\<close>), which writes
  \<open>bands[band_index].gain_db\<close> when the index names a band; the index is the position of
  a slider.
\<close>

definition set_band_gain :: "AudioProcessor \<Rightarrow> nat \<Rightarrow> real \<Rightarrow> AudioProcessor" where
  "set_band_gain p band_index g =
     (if band_index < length (bands p)
      then p\<lparr>bands := (bands p)[band_index := (bands p ! band_index)\<lparr>gain_db := g\<rparr>]\<rparr>
      else p)"

text \<open>The processor states that these operations can produce.\<close>

inductive reachable :: "AudioProcessor \<Rightarrow> bool" where
  r_init: "reachable (AudioProcessor_init sr)"
| r_add: "reachable p \<Longrightarrow> reachable (add_band p f g q)"
| r_clear: "reachable p \<Longrightarrow> reachable (clear_bands p)"
| r_reset: "reachable p \<Longrightarrow> reachable (reset_states p)"
| r_process: "reachable p \<Longrightarrow> reachable (snd (process_block p audio_data))"
| r_response: "reachable p \<Longrightarrow> reachable (snd (get_frequency_response p freqs))"
| r_gain: "reachable p \<Longrightarrow> reachable (set_band_gain p band_index g)"

section \<open>Block utilities\<close>

text \<open>
  \<^verbatim>\<open>normalize_audio\<close>. \<^verbatim>\<open>np.max\<close> of an empty array raises \<^verbatim>\<open>ValueError\<close>.
\<close>

definition np_max :: "real list \<Rightarrow> py_error + real" where
  "np_max xs = (case xs of [] \<Rightarrow> Inl ValueError | x # rest \<Rightarrow> Inr (fold max rest x))"

definition normalize_audio :: "real list \<Rightarrow> real \<Rightarrow> py_error + real list" where
  "normalize_audio audio_data target_level =
     (case np_max (map abs audio_data) of
        Inl e \<Rightarrow> Inl e
      | Inr peak \<Rightarrow>
          if peak = 0 then Inr audio_data
          else let target_linear = 10 powr (target_level / 20);
                   scale = target_linear / peak
               in Inr (map (\<lambda>x. x * scale) audio_data))"

text \<open>
  \<^verbatim>\<open>apply_fade\<close>. The function works on a copy of its argument. The slice
  \<^verbatim>\<open>result[:k]\<close> holds the first \<open>min k len\<close> elements; the slice \<^verbatim>\<open>result[-k:]\<close>
  starts at \<open>len - k\<close> for \<open>0 < k \<le> len\<close>, and \<^verbatim>\<open>result[-0:]\<close> is the whole array.
\<close>

definition neg_slice_start :: "nat \<Rightarrow> nat \<Rightarrow> nat" where
  "neg_slice_start k len = (if k = 0 then 0 else len - k)"

definition apply_fade :: "real list \<Rightarrow> int \<Rightarrow> py_error + real list" where
  "apply_fade audio_data fade_samples =
     (let result = audio_data
      in case linspace 0 1 (min fade_samples (int (length result))) of
           Inl e \<Rightarrow> Inl e
         | Inr fade_in \<Rightarrow>
             (case imul (take (length fade_in) result) fade_in of
                Inl e \<Rightarrow> Inl e
              | Inr head \<Rightarrow>
                  let result1 = head @ drop (length fade_in) result
                  in case linspace 1 0 (min fade_samples (int (length result1))) of
                       Inl e \<Rightarrow> Inl e
                     | Inr fade_out \<Rightarrow>
                         let s = neg_slice_start (length fade_out) (length result1)
                         in case imul (drop s result1) fade_out of
                              Inl e \<Rightarrow> Inl e
                            | Inr tail \<Rightarrow> Inr (take s result1 @ tail)))"

text \<open>
  The fade of the specification (section 4.5), in its own words: the first
  \<open>min(fadeSamples, len)\<close> samples are multiplied by a linear ramp from 0 to 1, the last
  \<open>min(fadeSamples, len)\<close> samples by a linear ramp from 1 to 0, and a sample covered by
  both ramps is multiplied by both factors.
\<close>

definition ramp_up :: "nat \<Rightarrow> nat \<Rightarrow> real" where
  "ramp_up n i = (if n \<le> 1 then 0 else real i / real (n - 1))"

definition ramp_down :: "nat \<Rightarrow> nat \<Rightarrow> real" where
  "ramp_down n j = (if n \<le> 1 then 1 else 1 - real j / real (n - 1))"

definition spec_applyFade :: "real list \<Rightarrow> nat \<Rightarrow> real list" where
  "spec_applyFade block fadeSamples =
     (let len = length block; n = min fadeSamples len
      in map (\<lambda>i. block ! i
                   * (if i < n then ramp_up n i else 1)
                   * (if len - n \<le> i then ramp_down n (i - (len - n)) else 1))
             [0..<len])"

section \<open>Presets\<close>

text \<open>
  The configuration is the JSON document that \<^verbatim>\<open>SoundEqualizer\<close> loads. A key read
  with \<^verbatim>\<open>d[key]\<close> may be missing (\<^verbatim>\<open>KeyError\<close>); a key read with \<^verbatim>\<open>d.get\<close> has a
  default. Lines written by \<^verbatim>\<open>print\<close> are collected in the field \<open>printed\<close>. The audio
  device handles of the class play no part in preset handling and are left out.
\<close>

record band_config =
  cfg_frequency :: "real option"
  cfg_gain_db :: "real option"
  cfg_q_factor :: "real option"

record preset =
  preset_description :: "string option"
  preset_gains :: "real list option"

record eq_config =
  cfg_bands :: "band_config list option"
  cfg_presets :: "(string \<times> preset) list option"

datatype message =
    PresetNotFound string
  | NoPresetsAvailable
  | AvailablePresets
  | PresetLine string string
  | GainCountMismatch nat nat
  | AppliedPreset string string

record SoundEqualizer =
  config :: eq_config
  processor :: AudioProcessor
  printed :: "message list"

fun print_presets ::
  "(string \<times> preset) list \<Rightarrow> message list \<Rightarrow> (py_error + unit) \<times> message list" where
  "print_presets [] out = (Inr (), out)"
| "print_presets ((name, pr) # rest) out =
     (case preset_description pr of
        None \<Rightarrow> (Inl KeyError, out)
      | Some d \<Rightarrow> print_presets rest (out @ [PresetLine name d]))"

definition list_presets :: "SoundEqualizer \<Rightarrow> (py_error + unit) \<times> SoundEqualizer" where
  "list_presets eq =
     (let presets = (case cfg_presets (config eq) of None \<Rightarrow> [] | Some ps \<Rightarrow> ps)
      in if presets = [] then (Inr (), eq\<lparr>printed := printed eq @ [NoPresetsAvailable]\<rparr>)
         else case print_presets presets (printed eq @ [AvailablePresets]) of
                (r, out) \<Rightarrow> (r, eq\<lparr>printed := out\<rparr>))"

text \<open>The loop of \<^verbatim>\<open>apply_preset\<close> that adds one band per configured band and gain.\<close>

fun reload_bands ::
  "AudioProcessor \<Rightarrow> (band_config \<times> real) list \<Rightarrow> (py_error + unit) \<times> AudioProcessor" where
  "reload_bands p [] = (Inr (), p)"
| "reload_bands p ((band, gain) # rest) =
     (case cfg_frequency band of
        None \<Rightarrow> (Inl KeyError, p)
      | Some f \<Rightarrow>
          reload_bands
            (add_band p f gain (case cfg_q_factor band of None \<Rightarrow> 1 | Some q \<Rightarrow> q)) rest)"

definition apply_preset ::
  "SoundEqualizer \<Rightarrow> string \<Rightarrow> (py_error + bool) \<times> SoundEqualizer" where
  "apply_preset eq preset_name =
     (let presets = (case cfg_presets (config eq) of None \<Rightarrow> [] | Some ps \<Rightarrow> ps)
      in case map_of presets preset_name of
           None \<Rightarrow>
             (case list_presets (eq\<lparr>printed := printed eq @ [PresetNotFound preset_name]\<rparr>) of
                (Inl e, eq1) \<Rightarrow> (Inl e, eq1)
              | (Inr u, eq1) \<Rightarrow> (Inr False, eq1))
         | Some pr \<Rightarrow>
             (case preset_gains pr of
                None \<Rightarrow> (Inl KeyError, eq)
              | Some gains \<Rightarrow>
                  let bnds = (case cfg_bands (config eq) of None \<Rightarrow> [] | Some bs \<Rightarrow> bs)
                  in if length gains \<noteq> length bnds
                     then (Inr False,
                           eq\<lparr>printed := printed eq
                                  @ [GainCountMismatch (length gains) (length bnds)]\<rparr>)
                     else case reload_bands (clear_bands (processor eq)) (zip bnds gains) of
                            (Inl e, p1) \<Rightarrow> (Inl e, eq\<lparr>processor := p1\<rparr>)
                          | (Inr u, p1) \<Rightarrow>
                              (case preset_description pr of
                                 None \<Rightarrow> (Inl KeyError, eq\<lparr>processor := p1\<rparr>)
                               | Some d \<Rightarrow>
                                   (Inr True,
                                    eq\<lparr>processor := p1,
                                       printed := printed eq @ [AppliedPreset preset_name d]\<rparr>))))"

section \<open>Coefficients: basic facts\<close>

lemma gain_linear_pos: "0 < (10::real) powr x"
  by simp

lemma valid_band_w0:
  assumes "valid_band fs band"
  shows "0 < 2 * pi * frequency band / fs \<and> 2 * pi * frequency band / fs < pi"
proof -
  from assms have fs: "0 < fs" and f: "0 < frequency band" and n: "frequency band < fs / 2"
    by (simp_all add: valid_band_def)
  have "0 < 2 * pi * frequency band / fs"
    using fs f by simp
  moreover have "2 * pi * frequency band / fs < pi"
  proof -
    have "2 * frequency band < fs" using n by simp
    then have "pi * (2 * frequency band) < pi * fs"
      by (intro mult_strict_left_mono) simp_all
    then have "2 * pi * frequency band < pi * fs"
      by (simp only: mult.assoc mult.left_commute)
    then show ?thesis using fs by (simp only: pos_divide_less_eq)
  qed
  ultimately show ?thesis by simp
qed

lemma valid_band_sin_pos:
  assumes "valid_band fs band"
  shows "0 < sin (2 * pi * frequency band / fs)"
  using valid_band_w0 [OF assms] by (intro sin_gt_zero) simp_all

lemma valid_band_cos_lt_1:
  assumes "valid_band fs band"
  shows "cos (2 * pi * frequency band / fs) < 1"
proof -
  have "cos (2 * pi * frequency band / fs) < cos 0"
    using valid_band_w0 [OF assms] by (intro cos_monotone_0_pi) simp_all
  then show ?thesis by simp
qed

lemma valid_band_a0_gt_1:
  assumes "valid_band fs band"
  shows "1 < 1 + (sin (2 * pi * frequency band / fs) / (2 * q_factor band))
                  / (10 powr (gain_db band / 20))"
proof -
  from assms have q: "0 < q_factor band" by (simp add: valid_band_def)
  have "0 < sin (2 * pi * frequency band / fs) / (2 * q_factor band)"
    using valid_band_sin_pos [OF assms] q by simp
  then have "0 < (sin (2 * pi * frequency band / fs) / (2 * q_factor band))
                   / (10 powr (gain_db band / 20))"
    by (rule divide_pos_pos) (rule gain_linear_pos)
  then show ?thesis by linarith
qed

lemma valid_band_lfilter_zi:
  assumes "valid_band fs band"
  shows "\<exists>zi. lfilter_zi (fst (get_filter_coefficients band fs))
                 (snd (get_filter_coefficients band fs)) = Inr zi"
proof -
  define c where "c = cos (2 * pi * frequency band / fs)"
  define r where "r = (sin (2 * pi * frequency band / fs) / (2 * q_factor band))
                       / (10 powr (gain_db band / 20))"
  have a0: "1 < 1 + r"
    using valid_band_a0_gt_1 [OF assms] by (simp add: r_def)
  have c: "c < 1"
    using valid_band_cos_lt_1 [OF assms] by (simp add: c_def)
  have "1 + (- 2 * c) / (1 + r) + (1 - r) / (1 + r) = (2 - 2 * c) / (1 + r)"
    using a0 by (simp add: field_simps)
  moreover have "(2 - 2 * c) / (1 + r) \<noteq> 0"
    using a0 c by simp
  ultimately have "1 + (- 2 * c) / (1 + r) + (1 - r) / (1 + r) \<noteq> 0"
    by simp
  then show ?thesis
    by (simp add: lfilter_zi_def get_filter_coefficients_def Let_def c_def r_def)
qed

section \<open>Coefficient formula\<close>

text \<open>
  C1. For a band with \<open>0 < f0 < fs/2\<close>, \<open>Q > 0\<close> and a sample rate \<open>fs > 0\<close>,
  \<open>get_filter_coefficients\<close> returns exactly the pair \<open>(b, a)\<close> of the specification's
  formula, which multiplies and divides \<open>alpha\<close> by the linear gain itself; the
  normalising divisor \<open>a0raw\<close> is greater than 1 there, so every division is defined.
  The band \<open>(1000, 6.0, 1.0)\<close> at \<open>fs = 44100\<close> is one instance.
\<close>

theorem get_filter_coefficients_formula:
  assumes "0 < fs" and "0 < f0" and "f0 < fs / 2" and "0 < Q"
  shows "get_filter_coefficients \<lparr>frequency = f0, gain_db = G, q_factor = Q\<rparr> fs
           = (spec_b f0 G Q fs, spec_a f0 G Q fs)
         \<and> 1 < spec_a0raw f0 G Q fs"
proof -
  have v: "valid_band fs \<lparr>frequency = f0, gain_db = G, q_factor = Q\<rparr>"
    using assms by (simp add: valid_band_def)
  have "get_filter_coefficients \<lparr>frequency = f0, gain_db = G, q_factor = Q\<rparr> fs
          = (spec_b f0 G Q fs, spec_a f0 G Q fs)"
    by (simp add: get_filter_coefficients_def Let_def spec_b_def spec_a_def spec_a0raw_def
        spec_alpha_def spec_w0_def spec_gainLinear_def)
  moreover have "1 < spec_a0raw f0 G Q fs"
    using valid_band_a0_gt_1 [OF v]
    by (simp add: spec_a0raw_def spec_alpha_def spec_w0_def spec_gainLinear_def)
  ultimately show ?thesis by simp
qed

theorem get_filter_coefficients_formula_witness:
  "(0::real) < 44100 \<and> (0::real) < 1000 \<and> (1000::real) < 44100 / 2 \<and> (0::real) < 1
   \<and> get_filter_coefficients \<lparr>frequency = 1000, gain_db = 6, q_factor = 1\<rparr> 44100
       = (spec_b 1000 6 1 44100, spec_a 1000 6 1 44100)
   \<and> 1 < spec_a0raw 1000 6 1 44100"
  using get_filter_coefficients_formula [of 44100 1000 1 6] by simp

section \<open>Zero gain\<close>

lemma lfilter_same_coeffs:
  "lfilter (1, c1, c2) (1, c1, c2) xs (0, 0) = (xs, (0, 0))"
  by (induction xs) (simp_all add: lfilter_step_def)

text \<open>
  C4. For a band with \<open>gain_db = 0\<close>, a valid frequency, \<open>Q > 0\<close> and \<open>fs > 0\<close>, the
  vectors \<open>b\<close> and \<open>a\<close> returned by \<open>get_filter_coefficients\<close> are equal, and the filter
  they define is the identity: started from rest it returns every block unchanged.
\<close>

theorem zero_gain_identity:
  assumes "valid_band fs band" and "gain_db band = 0"
  shows "fst (get_filter_coefficients band fs) = snd (get_filter_coefficients band fs)
         \<and> (\<forall>xs. lfilter (fst (get_filter_coefficients band fs))
                    (snd (get_filter_coefficients band fs)) xs (0, 0) = (xs, (0, 0)))"
proof -
  have "1 < 1 + (sin (2 * pi * frequency band / fs) / (2 * q_factor band)) / (10 powr (0 / 20))"
    using valid_band_a0_gt_1 [OF assms(1)] assms(2) by simp
  then have nz: "1 + sin (2 * pi * frequency band / fs) / (2 * q_factor band) \<noteq> 0"
    by simp
  have eq: "fst (get_filter_coefficients band fs) = snd (get_filter_coefficients band fs)"
    using nz assms(2) by (simp add: get_filter_coefficients_def Let_def)
  obtain c1 c2 where a: "snd (get_filter_coefficients band fs) = (1, c1, c2)"
    by (simp add: get_filter_coefficients_def Let_def)
  show ?thesis
    using eq a lfilter_same_coeffs [of c1 c2] by simp
qed

theorem zero_gain_identity_witness:
  "valid_band 44100 \<lparr>frequency = 1000, gain_db = 0, q_factor = 1\<rparr>
   \<and> fst (get_filter_coefficients \<lparr>frequency = 1000, gain_db = 0, q_factor = 1\<rparr> 44100)
       = snd (get_filter_coefficients \<lparr>frequency = 1000, gain_db = 0, q_factor = 1\<rparr> 44100)
   \<and> lfilter (fst (get_filter_coefficients \<lparr>frequency = 1000, gain_db = 0, q_factor = 1\<rparr> 44100))
        (snd (get_filter_coefficients \<lparr>frequency = 1000, gain_db = 0, q_factor = 1\<rparr> 44100))
        [1, 2, 3] (0, 0) = ([1, 2, 3], (0, 0))"
proof -
  have v: "valid_band 44100 \<lparr>frequency = 1000, gain_db = 0, q_factor = 1\<rparr>"
    by (simp add: valid_band_def)
  have g: "gain_db \<lparr>frequency = 1000, gain_db = 0, q_factor = 1\<rparr> = 0"
    by simp
  show ?thesis
    using v zero_gain_identity [OF v g] by blast
qed

section \<open>Empty blocks\<close>

lemma filter_band_empty_uninitialized:
  assumes "valid_band fs band"
  shows "filter_band (fst (get_filter_coefficients band fs))
           (snd (get_filter_coefficients band fs)) None [] = Inl IndexError"
  using valid_band_lfilter_zi [OF assms] by (auto simp add: filter_band_def)

lemma process_block_empty_uninitialized:
  assumes "valid_band (sample_rate p) band" and "bands p = band # rest"
    and "filter_states p = None # sts"
  shows "process_block p [] = (Inl IndexError, p)"
proof -
  obtain b a where ba: "get_filter_coefficients band (sample_rate p) = (b, a)"
    by (cases "get_filter_coefficients band (sample_rate p)")
  have "filter_band b a None [] = Inl IndexError"
    using filter_band_empty_uninitialized [OF assms(1)] ba by simp
  then have "band_loop (sample_rate p) (band # rest) 0 [] (None # sts)
               = (Inl IndexError, None # sts)"
    using ba by simp
  then show ?thesis
    using assms(2,3) by (simp add: process_block_def)
qed

text \<open>
  C2. The claim is that \<open>process_block\<close> accepts a block of length 0 in every chain
  state. The program does not: a chain of one band that has not filtered a block yet
  reads \<open>processed[0]\<close> for the initial condition, and on the empty block that read
  raises \<^verbatim>\<open>IndexError\<close>. The chain is left as it was.
\<close>

theorem process_block_empty_block_raises:
  "process_block (add_band (AudioProcessor_init 44100) 1000 6 1) []
     = (Inl IndexError, add_band (AudioProcessor_init 44100) 1000 6 1)"
proof -
  have "valid_band 44100 \<lparr>frequency = 1000, gain_db = 6, q_factor = 1\<rparr>"
    by (simp add: valid_band_def)
  then show ?thesis
    by (intro process_block_empty_uninitialized
          [where band = "\<lparr>frequency = 1000, gain_db = 6, q_factor = 1\<rparr>"
             and rest = "[]" and sts = "[]"])
       (simp_all add: add_band_def AudioProcessor_init_def)
qed

section \<open>Shape of the chain\<close>

lemma band_loop_length:
  "length (snd (band_loop sr bs i x st)) = length st"
proof (induction bs arbitrary: i x st)
  case Nil
  then show ?case by simp
next
  case (Cons band rest)
  then show ?case
    by (auto split: prod.splits sum.splits)
qed

lemma process_block_frame:
  "bands (snd (process_block p xs)) = bands p
   \<and> sample_rate (snd (process_block p xs)) = sample_rate p
   \<and> length (filter_states (snd (process_block p xs))) = length (filter_states p)"
proof (cases "length (bands p) = 0")
  case True
  then show ?thesis by (simp add: process_block_def)
next
  case False
  obtain r st where l: "band_loop (sample_rate p) (bands p) 0 xs (filter_states p) = (r, st)"
    by (cases "band_loop (sample_rate p) (bands p) 0 xs (filter_states p)")
  have "length st = length (filter_states p)"
    using band_loop_length [of "sample_rate p" "bands p" 0 xs "filter_states p"] l by simp
  then show ?thesis
    using False l by (simp add: process_block_def)
qed

lemma get_frequency_response_state:
  "snd (get_frequency_response p freqs) = p"
  by (simp add: get_frequency_response_def Let_def)

lemma reachable_aligned:
  "reachable p \<Longrightarrow> length (bands p) = length (filter_states p)"
proof (induction rule: reachable.induct)
  case (r_init sr)
  then show ?case by (simp add: AudioProcessor_init_def)
next
  case (r_add p f g q)
  then show ?case by (simp add: add_band_def Let_def)
next
  case (r_clear p)
  then show ?case by (simp add: clear_bands_def)
next
  case (r_reset p)
  then show ?case by (simp add: reset_states_def)
next
  case (r_process p audio_data)
  then show ?case using process_block_frame [of p audio_data] by simp
next
  case (r_response p freqs)
  then show ?case by (simp add: get_frequency_response_state)
next
  case (r_gain p band_index g)
  then show ?case by (simp add: set_band_gain_def)
qed

text \<open>
  C8. Every processor state that construction, \<open>add_band\<close>, \<open>clear_bands\<close>,
  \<open>reset_states\<close>, \<open>process_block\<close>, \<open>get_frequency_response\<close> and a live gain change can
  produce has as many filter states as bands. A new processor has neither; \<open>add_band\<close> appends one band and
  one \<open>None\<close> state; \<open>clear_bands\<close> empties both lists; \<open>reset_states\<close> keeps the bands and
  stores one \<open>None\<close> per band; \<open>process_block\<close> changes neither length, whether it returns
  or raises.
\<close>

theorem chain_alignment_invariant:
  assumes "reachable p"
  shows "length (bands p) = length (filter_states p)
    \<and> bands (AudioProcessor_init sr) = [] \<and> filter_states (AudioProcessor_init sr) = []
    \<and> bands (add_band p f g q) = bands p @ [\<lparr>frequency = f, gain_db = g, q_factor = q\<rparr>]
    \<and> filter_states (add_band p f g q) = filter_states p @ [None]
    \<and> bands (clear_bands p) = [] \<and> filter_states (clear_bands p) = []
    \<and> bands (reset_states p) = bands p
    \<and> filter_states (reset_states p) = replicate (length (bands p)) None
    \<and> length (bands (snd (process_block p xs))) = length (bands p)
    \<and> length (filter_states (snd (process_block p xs))) = length (filter_states p)"
  using reachable_aligned [OF assms] process_block_frame [of p xs]
  by (simp add: AudioProcessor_init_def add_band_def Let_def clear_bands_def reset_states_def)

theorem chain_alignment_invariant_witness:
  "reachable (snd (process_block (add_band (AudioProcessor_init 44100) 1000 6 1) [1, 2]))
   \<and> length (bands (snd (process_block (add_band (AudioProcessor_init 44100) 1000 6 1) [1, 2])))
       = length (filter_states
                   (snd (process_block (add_band (AudioProcessor_init 44100) 1000 6 1) [1, 2])))"
proof -
  have r: "reachable (snd (process_block (add_band (AudioProcessor_init 44100) 1000 6 1) [1, 2]))"
    by (intro reachable.intros)
  show ?thesis
    using r chain_alignment_invariant [OF r] by blast
qed

section \<open>Frequency response\<close>

lemma length_freqz: "length (freqz b a worN fs) = length worN"
  by (cases b; cases a) (simp add: freqz_def)

lemma length_total_response:
  "length tr = length fr \<Longrightarrow>
   length (fold (\<lambda>band tr. case get_filter_coefficients band sr of (b, a) \<Rightarrow>
                   map2 (*) tr (freqz b a fr sr)) bs tr) = length fr"
  by (induction bs arbitrary: tr) (simp_all add: length_freqz split: prod.splits)

text \<open>
  C9. \<open>get_frequency_response\<close> leaves the processor (sample rate, bands and filter
  states) exactly as it was, for an explicit grid and for the default one, and returns
  the grid it evaluated with one magnitude and one phase per grid point.
\<close>

theorem get_frequency_response_pure:
  "snd (get_frequency_response p freqs) = p
   \<and> (case fst (get_frequency_response p freqs) of
        (fr, magnitude_db, phase) \<Rightarrow>
          fr = (case freqs of None \<Rightarrow> logspace 1 (log 10 (sample_rate p / 2)) 1000
                            | Some g \<Rightarrow> g)
          \<and> length magnitude_db = length fr \<and> length phase = length fr)"
  by (simp add: get_frequency_response_def Let_def length_total_response)

section \<open>Adding a band\<close>

lemma band_loop_append:
  "band_loop sr (bs @ cs) i x st =
     (case band_loop sr bs i x st of
        (Inl e, st1) \<Rightarrow> (Inl e, st1)
      | (Inr y, st1) \<Rightarrow> band_loop sr cs (i + length bs) y st1)"
proof (induction bs arbitrary: i x st)
  case Nil
  then show ?case by simp
next
  case (Cons band rest)
  then show ?case
    by (simp split: prod.splits sum.splits)
qed

lemma band_loop_extra_states:
  "i + length bs \<le> length st \<Longrightarrow>
   band_loop sr bs i x (st @ ex) =
     (case band_loop sr bs i x st of (r, st1) \<Rightarrow> (r, st1 @ ex))"
proof (induction bs arbitrary: i x st)
  case Nil
  then show ?case by simp
next
  case (Cons band rest)
  from Cons.prems have i: "i < length st" and r: "\<And>v. Suc i + length rest \<le> length (st[i := v])"
    by simp_all
  show ?case
    using i Cons.IH [OF r]
    by (simp add: nth_append list_update_append1 split: prod.splits sum.splits)
qed

lemma process_block_add_band:
  fixes f g q :: real
  assumes al: "length (bands p) = length (filter_states p)"
  defines "nb \<equiv> \<lparr>frequency = f, gain_db = g, q_factor = q\<rparr>"
  shows "take (length (bands p)) (filter_states (snd (process_block (add_band p f g q) xs)))
           = filter_states (snd (process_block p xs))
       \<and> (\<forall>ys. fst (process_block p xs) = Inr ys \<longrightarrow>
            fst (process_block (add_band p f g q) xs)
              = (case filter_band (fst (get_filter_coefficients nb (sample_rate p)))
                        (snd (get_filter_coefficients nb (sample_rate p))) None ys of
                   Inl e \<Rightarrow> Inl e | Inr (y, zf) \<Rightarrow> Inr y))"
proof -
  define sr where "sr = sample_rate p"
  define bs where "bs = bands p"
  define st where "st = filter_states p"
  define n where "n = length bs"
  obtain b a where ba: "get_filter_coefficients nb sr = (b, a)"
    by (cases "get_filter_coefficients nb sr")
  obtain r st1 where l: "band_loop sr bs 0 xs st = (r, st1)"
    by (cases "band_loop sr bs 0 xs st")
  have len: "length st1 = n"
    using band_loop_length [of sr bs 0 xs st] l al by (simp add: n_def bs_def st_def)
  have ext: "band_loop sr bs 0 xs (st @ [None]) = (r, st1 @ [None])"
    using band_loop_extra_states [of 0 bs st sr xs "[None]"] l al
    by (simp add: bs_def st_def)
  have new: "process_block (add_band p f g q) xs
      = (case band_loop sr (bs @ [nb]) 0 xs (st @ [None]) of
           (r', st') \<Rightarrow> (r', (add_band p f g q)\<lparr>filter_states := st'\<rparr>))"
    by (simp add: process_block_def add_band_def Let_def sr_def bs_def st_def nb_def)
  have app: "band_loop sr (bs @ [nb]) 0 xs (st @ [None])
      = (case r of Inl e \<Rightarrow> (Inl e, st1 @ [None])
         | Inr y \<Rightarrow> (case filter_band b a None y of
                       Inl e \<Rightarrow> (Inl e, st1 @ [None])
                     | Inr (y', zf) \<Rightarrow> (Inr y', st1 @ [Some zf])))"
  proof -
    have "(st1 @ [None]) ! length st1 = None"
      by simp
    then have nth: "(st1 @ [None]) ! length bs = None"
      unfolding len n_def .
    have "\<And>v. (st1 @ [None])[length st1 := v] = st1 @ [v]"
      by simp
    then have upd: "\<And>v. (st1 @ [None])[length bs := v] = st1 @ [v]"
      unfolding len n_def .
    have lt: "\<not> length st1 + 1 \<le> length bs"
      using len by (simp add: n_def)
    show ?thesis
    proof (cases r)
      case (Inl e)
      then show ?thesis using ext by (simp add: band_loop_append)
    next
      case (Inr y)
      then show ?thesis
        using ext ba nth upd lt
        by (simp add: band_loop_append split: sum.splits prod.splits)
    qed
  qed
  show ?thesis
  proof (cases "bs = []")
    case True
    then have old: "process_block p xs = (Inr xs, p)"
      by (simp add: process_block_def bs_def)
    from True l have r: "r = Inr xs" "st1 = st" by simp_all
    from True al have "st = []" by (simp add: bs_def st_def)
    then show ?thesis
      using new app r old True ba
      by (simp add: sr_def bs_def st_def split: sum.splits prod.splits)
  next
    case False
    then have old: "process_block p xs = (r, p\<lparr>filter_states := st1\<rparr>)"
      using l by (simp add: process_block_def bs_def sr_def st_def)
    show ?thesis
      using new app old len ba
      by (auto simp add: sr_def bs_def n_def split: sum.splits prod.splits)
  qed
qed

text \<open>
  C10. \<open>add_band\<close> only appends: the sample rate, every band already present and every
  stored filter state are unchanged, and the new band and a \<open>None\<close> state are added at
  the end. Hence, in a chain with one state per band, the next \<open>process_block\<close> call
  leaves the earlier bands with the very states they would have had without the new
  band, and whenever the old chain returns a block the new chain returns that block
  filtered by the new band.
\<close>

theorem add_band_only_appends:
  "sample_rate (add_band p f g q) = sample_rate p
   \<and> bands (add_band p f g q) = bands p @ [\<lparr>frequency = f, gain_db = g, q_factor = q\<rparr>]
   \<and> filter_states (add_band p f g q) = filter_states p @ [None]
   \<and> (\<forall>i < length (bands p). bands (add_band p f g q) ! i = bands p ! i)
   \<and> (\<forall>i < length (filter_states p).
         filter_states (add_band p f g q) ! i = filter_states p ! i)
   \<and> (length (bands p) = length (filter_states p) \<longrightarrow>
        (\<forall>xs. take (length (bands p))
                 (filter_states (snd (process_block (add_band p f g q) xs)))
               = filter_states (snd (process_block p xs))
            \<and> (\<forall>ys. fst (process_block p xs) = Inr ys \<longrightarrow>
                  fst (process_block (add_band p f g q) xs)
                    = (case filter_band
                              (fst (get_filter_coefficients
                                      \<lparr>frequency = f, gain_db = g, q_factor = q\<rparr> (sample_rate p)))
                              (snd (get_filter_coefficients
                                      \<lparr>frequency = f, gain_db = g, q_factor = q\<rparr> (sample_rate p)))
                              None ys of
                         Inl e \<Rightarrow> Inl e | Inr (y, zf) \<Rightarrow> Inr y))))"
  using process_block_add_band [of p f g q]
  by (simp add: add_band_def Let_def nth_append)

theorem add_band_only_appends_witness:
  "length (bands \<lparr>sample_rate = 44100,
                   bands = [\<lparr>frequency = 1000, gain_db = 6, q_factor = 1\<rparr>],
                   filter_states = [Some (1 / 2, 1 / 4)]\<rparr>)
     = length (filter_states \<lparr>sample_rate = 44100,
                   bands = [\<lparr>frequency = 1000, gain_db = 6, q_factor = 1\<rparr>],
                   filter_states = [Some (1 / 2, 1 / 4)]\<rparr>)
   \<and> filter_states (add_band \<lparr>sample_rate = 44100,
                   bands = [\<lparr>frequency = 1000, gain_db = 6, q_factor = 1\<rparr>],
                   filter_states = [Some (1 / 2, 1 / 4)]\<rparr> 2000 3 1)
       = [Some (1 / 2, 1 / 4), None]
   \<and> take 1 (filter_states (snd (process_block (add_band \<lparr>sample_rate = 44100,
                   bands = [\<lparr>frequency = 1000, gain_db = 6, q_factor = 1\<rparr>],
                   filter_states = [Some (1 / 2, 1 / 4)]\<rparr> 2000 3 1) [1, 2])))
       = filter_states (snd (process_block \<lparr>sample_rate = 44100,
                   bands = [\<lparr>frequency = 1000, gain_db = 6, q_factor = 1\<rparr>],
                   filter_states = [Some (1 / 2, 1 / 4)]\<rparr> [1, 2]))"
proof -
  define p0 :: AudioProcessor where
    "p0 = \<lparr>sample_rate = 44100,
           bands = [\<lparr>frequency = 1000, gain_db = 6, q_factor = 1\<rparr>],
           filter_states = [Some (1 / 2, 1 / 4)]\<rparr>"
  have al: "length (bands p0) = length (filter_states p0)"
    by (simp add: p0_def)
  have n: "length (bands p0) = 1" and st: "filter_states p0 = [Some (1 / 2, 1 / 4)]"
    by (simp_all add: p0_def)
  from add_band_only_appends [of p0 2000 3 1] al
  have a: "filter_states (add_band p0 2000 3 1) = filter_states p0 @ [None]"
    and b: "take (length (bands p0))
              (filter_states (snd (process_block (add_band p0 2000 3 1) [1, 2])))
            = filter_states (snd (process_block p0 [1, 2]))"
    by blast+
  show ?thesis
    using al a b unfolding n st unfolding p0_def by simp
qed

section \<open>Preset application\<close>

text \<open>
  C7. When the preset exists and its list of gains has a length different from the
  number of configured bands, \<open>apply_preset\<close> returns \<open>False\<close>, prints one line that
  carries both counts, and leaves the configuration and the processor (bands and filter
  states) exactly as they were.
\<close>

theorem apply_preset_gain_count_mismatch:
  assumes "map_of (case cfg_presets (config eq) of None \<Rightarrow> [] | Some ps \<Rightarrow> ps) preset_name
             = Some pr"
    and "preset_gains pr = Some gains"
    and "length gains \<noteq> length (case cfg_bands (config eq) of None \<Rightarrow> [] | Some bs \<Rightarrow> bs)"
  shows "fst (apply_preset eq preset_name) = Inr False
       \<and> processor (snd (apply_preset eq preset_name)) = processor eq
       \<and> bands (processor (snd (apply_preset eq preset_name))) = bands (processor eq)
       \<and> filter_states (processor (snd (apply_preset eq preset_name)))
            = filter_states (processor eq)
       \<and> config (snd (apply_preset eq preset_name)) = config eq
       \<and> printed (snd (apply_preset eq preset_name))
            = printed eq
              @ [GainCountMismatch (length gains)
                   (length (case cfg_bands (config eq) of None \<Rightarrow> [] | Some bs \<Rightarrow> bs))]"
  using assms by (simp add: apply_preset_def Let_def)

theorem apply_preset_gain_count_mismatch_witness:
  "fst (apply_preset
          \<lparr>config = \<lparr>cfg_bands = Some [\<lparr>cfg_frequency = Some 100, cfg_gain_db = Some 0,
                                          cfg_q_factor = Some 1\<rparr>,
                                        \<lparr>cfg_frequency = Some 1000, cfg_gain_db = Some 0,
                                          cfg_q_factor = Some 1\<rparr>],
                      cfg_presets = Some [(''wrong_preset'',
                                           \<lparr>preset_description = Some ''Wrong number of gains'',
                                             preset_gains = Some [1, 2, 3, 4, 5]\<rparr>)]\<rparr>,
            processor = \<lparr>sample_rate = 44100,
                          bands = [\<lparr>frequency = 100, gain_db = 0, q_factor = 1\<rparr>,
                                   \<lparr>frequency = 1000, gain_db = 0, q_factor = 1\<rparr>],
                          filter_states = [Some (1 / 2, 1 / 4), None]\<rparr>,
            printed = []\<rparr> ''wrong_preset'') = Inr False
   \<and> processor (snd (apply_preset
          \<lparr>config = \<lparr>cfg_bands = Some [\<lparr>cfg_frequency = Some 100, cfg_gain_db = Some 0,
                                          cfg_q_factor = Some 1\<rparr>,
                                        \<lparr>cfg_frequency = Some 1000, cfg_gain_db = Some 0,
                                          cfg_q_factor = Some 1\<rparr>],
                      cfg_presets = Some [(''wrong_preset'',
                                           \<lparr>preset_description = Some ''Wrong number of gains'',
                                             preset_gains = Some [1, 2, 3, 4, 5]\<rparr>)]\<rparr>,
            processor = \<lparr>sample_rate = 44100,
                          bands = [\<lparr>frequency = 100, gain_db = 0, q_factor = 1\<rparr>,
                                   \<lparr>frequency = 1000, gain_db = 0, q_factor = 1\<rparr>],
                          filter_states = [Some (1 / 2, 1 / 4), None]\<rparr>,
            printed = []\<rparr> ''wrong_preset''))
       = \<lparr>sample_rate = 44100,
           bands = [\<lparr>frequency = 100, gain_db = 0, q_factor = 1\<rparr>,
                    \<lparr>frequency = 1000, gain_db = 0, q_factor = 1\<rparr>],
           filter_states = [Some (1 / 2, 1 / 4), None]\<rparr>"
proof -
  define pr :: preset where
    "pr = \<lparr>preset_description = Some ''Wrong number of gains'',
           preset_gains = Some [1, 2, 3, 4, 5]\<rparr>"
  define eq :: SoundEqualizer where
    "eq = \<lparr>config = \<lparr>cfg_bands = Some [\<lparr>cfg_frequency = Some 100, cfg_gain_db = Some 0,
                                          cfg_q_factor = Some 1\<rparr>,
                                        \<lparr>cfg_frequency = Some 1000, cfg_gain_db = Some 0,
                                          cfg_q_factor = Some 1\<rparr>],
                      cfg_presets = Some [(''wrong_preset'', pr)]\<rparr>,
            processor = \<lparr>sample_rate = 44100,
                          bands = [\<lparr>frequency = 100, gain_db = 0, q_factor = 1\<rparr>,
                                   \<lparr>frequency = 1000, gain_db = 0, q_factor = 1\<rparr>],
                          filter_states = [Some (1 / 2, 1 / 4), None]\<rparr>,
            printed = []\<rparr>"
  have h1: "map_of (case cfg_presets (config eq) of None \<Rightarrow> [] | Some ps \<Rightarrow> ps) ''wrong_preset''
              = Some pr"
    by (simp add: eq_def)
  have h2: "preset_gains pr = Some [1, 2, 3, 4, 5]"
    by (simp add: pr_def)
  have h3: "length [1, 2, 3, 4, 5 :: real]
              \<noteq> length (case cfg_bands (config eq) of None \<Rightarrow> [] | Some bs \<Rightarrow> bs)"
    by (simp add: eq_def)
  from apply_preset_gain_count_mismatch [OF h1 h2 h3]
  have "fst (apply_preset eq ''wrong_preset'') = Inr False"
    and "processor (snd (apply_preset eq ''wrong_preset'')) = processor eq"
    by blast+
  then show ?thesis
    unfolding eq_def pr_def by simp
qed

section \<open>Normalisation\<close>

lemma np_max_nonempty:
  assumes "xs \<noteq> []"
  shows "np_max xs = Inr (Max (set xs))"
proof -
  obtain x rest where xs: "xs = x # rest"
    using assms by (cases xs) auto
  have "Max (set (x # rest)) = fold max rest x"
    by (rule Max.set_eq_fold)
  then show ?thesis
    unfolding xs np_max_def by simp
qed

lemma Max_scaled:
  fixes s :: real
  assumes "finite A" and "A \<noteq> {}" and "0 < s"
  shows "Max ((\<lambda>a. a * s) ` A) = Max A * s"
proof -
  have "mono (\<lambda>a::real. a * s)"
    using assms(3) by (intro monoI mult_right_mono) simp_all
  then show ?thesis
    using mono_Max_commute [of "\<lambda>a. a * s" A] assms(1,2) by simp
qed

lemma peak_nonneg:
  fixes xs :: "real list"
  assumes "xs \<noteq> []"
  shows "0 \<le> Max (abs ` set xs)"
proof -
  obtain x where "x \<in> set xs" using assms by (cases xs) auto
  then have "\<bar>x\<bar> \<le> Max (abs ` set xs)" by (intro Max_ge) simp_all
  then show ?thesis by linarith
qed

text \<open>
  C5, as the program has it. For a block with at least one sample: when its peak
  \<open>max |sample|\<close> is 0 the block is returned unchanged; otherwise every sample is
  multiplied by the one scalar \<open>10^(targetDb/20) / peak\<close>, and the peak of the result is
  exactly \<open>10^(targetDb/20)\<close>.
\<close>

theorem normalize_audio_nonempty:
  assumes "audio_data \<noteq> []"
  shows "(Max (abs ` set audio_data) = 0 \<longrightarrow>
            normalize_audio audio_data target_level = Inr audio_data)
       \<and> (Max (abs ` set audio_data) \<noteq> 0 \<longrightarrow>
            normalize_audio audio_data target_level
              = Inr (map (\<lambda>x. x * (10 powr (target_level / 20) / Max (abs ` set audio_data)))
                       audio_data)
            \<and> Max (abs ` set (map (\<lambda>x. x * (10 powr (target_level / 20)
                                              / Max (abs ` set audio_data))) audio_data))
                = 10 powr (target_level / 20))"
proof -
  define peak where "peak = Max (abs ` set audio_data)"
  define s where "s = 10 powr (target_level / 20) / peak"
  have mx: "np_max (map abs audio_data) = Inr peak"
    using assms by (simp add: np_max_nonempty peak_def)
  have run: "normalize_audio audio_data target_level
               = (if peak = 0 then Inr audio_data else Inr (map (\<lambda>x. x * s) audio_data))"
    using mx by (simp add: normalize_audio_def Let_def s_def)
  have pk: "peak \<noteq> 0 \<Longrightarrow> Max (abs ` set (map (\<lambda>x. x * s) audio_data)) = 10 powr (target_level / 20)"
  proof -
    assume nz: "peak \<noteq> 0"
    have "0 \<le> peak" using peak_nonneg [OF assms] by (simp add: peak_def)
    with nz have pos: "0 < peak" by simp
    then have s: "0 < s" by (simp add: s_def)
    have "abs ` set (map (\<lambda>x. x * s) audio_data) = (\<lambda>a. a * s) ` (abs ` set audio_data)"
      using s by (auto simp add: image_image abs_mult)
    then have "Max (abs ` set (map (\<lambda>x. x * s) audio_data)) = peak * s"
      using Max_scaled [of "abs ` set audio_data" s] assms s by (simp add: peak_def)
    also have "\<dots> = 10 powr (target_level / 20)"
      using pos by (simp add: s_def)
    finally show ?thesis .
  qed
  show ?thesis
    using run pk unfolding peak_def s_def by simp
qed

theorem normalize_audio_nonempty_witness:
  "[1 / 2, 3 / 10, - 2 / 5, 1 / 5] \<noteq> ([]::real list)
   \<and> normalize_audio [1 / 2, 3 / 10, - 2 / 5, 1 / 5] (- 3)
       = Inr (map (\<lambda>x. x * (10 powr (- 3 / 20) / (1 / 2))) [1 / 2, 3 / 10, - 2 / 5, 1 / 5])
   \<and> normalize_audio [0, 0] (- 3) = Inr [0, 0]"
proof -
  have ne: "[1 / 2, 3 / 10, - 2 / 5, 1 / 5] \<noteq> ([]::real list)" by simp
  have pk: "Max (abs ` set [1 / 2, 3 / 10, - 2 / 5, 1 / 5 :: real]) = 1 / 2" by simp
  have z: "Max (abs ` set [0, 0 :: real]) = 0" by simp
  have ne0: "[0, 0] \<noteq> ([]::real list)" by simp
  show ?thesis
    using normalize_audio_nonempty [OF ne, of "- 3"]
      normalize_audio_nonempty [OF ne0, of "- 3"] pk z
    by simp
qed

text \<open>
  The claim as stated covers every block. On the empty block the peak does not exist:
  \<^verbatim>\<open>np.max\<close> raises \<^verbatim>\<open>ValueError\<close> and no block is returned.
\<close>

theorem normalize_audio_empty_block_counterexample:
  "normalize_audio [] (- 3) = Inl ValueError \<and> (\<nexists>out. normalize_audio [] (- 3) = Inr out)"
  by (simp add: normalize_audio_def np_max_def)

section \<open>Fades\<close>

lemma length_linspace_vals: "length (linspace_vals start stop num) = num"
  by (simp add: linspace_vals_def Let_def)

lemma linspace_vals_up:
  "i < n \<Longrightarrow> linspace_vals 0 1 n ! i = ramp_up n i"
  by (cases "n \<le> 1") (auto simp add: linspace_vals_def Let_def ramp_up_def)

lemma linspace_vals_down:
  "j < n \<Longrightarrow> linspace_vals 1 0 n ! j = ramp_down n j"
  by (cases "n \<le> 1") (auto simp add: linspace_vals_def Let_def ramp_down_def)

lemma imul_same_length:
  "length xs = length ys \<Longrightarrow> imul xs ys = Inr (map2 (*) xs ys)"
  by (simp add: imul_def)

text \<open>
  For a positive \<open>fade_samples\<close> the program computes exactly the fade of the
  specification, overlapping ramps included.
\<close>

lemma apply_fade_positive:
  assumes "1 \<le> fade_samples"
  shows "apply_fade audio_data fade_samples
           = Inr (spec_applyFade audio_data (nat fade_samples))"
proof -
  define len where "len = length audio_data"
  define n where "n = min (nat fade_samples) len"
  define fade_in where "fade_in = linspace_vals 0 1 n"
  define fade_out where "fade_out = linspace_vals 1 0 n"
  define result1 where "result1 = map2 (*) (take n audio_data) fade_in @ drop n audio_data"
  define s where "s = len - n"
  have nle: "n \<le> len" by (simp add: n_def)
  have mn: "min fade_samples (int len) = int n"
    using assms unfolding n_def min_def by (auto simp add: nat_le_iff)
  have lin: "linspace 0 1 (min fade_samples (int len)) = Inr fade_in"
    and lout: "linspace 1 0 (min fade_samples (int len)) = Inr fade_out"
    unfolding mn by (simp_all add: linspace_def fade_in_def fade_out_def)
  have lfi: "length fade_in = n" and lfo: "length fade_out = n"
    by (simp_all add: fade_in_def fade_out_def length_linspace_vals)
  have head: "imul (take n audio_data) fade_in = Inr (map2 (*) (take n audio_data) fade_in)"
    using nle by (intro imul_same_length) (simp add: lfi len_def)
  have lr1: "length result1 = len"
    using nle by (simp add: result1_def lfi len_def)
  have start: "neg_slice_start n len = s"
  proof (cases "n = 0")
    case True
    then have "len = 0" using assms by (simp add: n_def min_def split: if_splits)
    then show ?thesis using True by (simp add: neg_slice_start_def s_def)
  next
    case False
    then show ?thesis by (simp add: neg_slice_start_def s_def)
  qed
  have tail: "imul (drop s result1) fade_out = Inr (map2 (*) (drop s result1) fade_out)"
    using nle by (intro imul_same_length) (simp add: lfo lr1 s_def)
  have run: "apply_fade audio_data fade_samples
               = Inr (take s result1 @ map2 (*) (drop s result1) fade_out)"
    using lin lout head tail start lr1
    by (simp add: apply_fade_def Let_def lfi lfo result1_def [symmetric] len_def [symmetric])
  have r1: "result1 ! i = audio_data ! i * (if i < n then ramp_up n i else 1)"
    if "i < len" for i
  proof (cases "i < n")
    case True
    then show ?thesis
      using that nle
      by (simp add: result1_def nth_append length_linspace_vals len_def fade_in_def
            linspace_vals_up)
  next
    case False
    then show ?thesis
      using that nle by (simp add: result1_def nth_append lfi len_def)
  qed
  have spec: "spec_applyFade audio_data (nat fade_samples) ! i
                = audio_data ! i * (if i < n then ramp_up n i else 1)
                    * (if s \<le> i then ramp_down n (i - s) else 1)"
    if "i < len" for i
  proof -
    have "spec_applyFade audio_data (nat fade_samples)
            = map (\<lambda>i. audio_data ! i * (if i < n then ramp_up n i else 1)
                          * (if s \<le> i then ramp_down n (i - s) else 1)) [0..<len]"
      unfolding spec_applyFade_def Let_def n_def len_def s_def by (rule refl)
    then show ?thesis using that by simp
  qed
  have "take s result1 @ map2 (*) (drop s result1) fade_out
          = spec_applyFade audio_data (nat fade_samples)"
  proof (rule nth_equalityI)
    show "length (take s result1 @ map2 (*) (drop s result1) fade_out)
            = length (spec_applyFade audio_data (nat fade_samples))"
      using nle by (simp add: lr1 lfo s_def spec_applyFade_def Let_def len_def)
  next
    fix i
    assume "i < length (take s result1 @ map2 (*) (drop s result1) fade_out)"
    then have i: "i < len"
      using nle by (simp add: lr1 lfo s_def)
    show "(take s result1 @ map2 (*) (drop s result1) fade_out) ! i
            = spec_applyFade audio_data (nat fade_samples) ! i"
    proof (cases "i < s")
      case True
      then have "(take s result1 @ map2 (*) (drop s result1) fade_out) ! i = result1 ! i"
        using i by (simp add: nth_append lr1)
      then show ?thesis
        using True r1 [OF i] spec [OF i] by simp
    next
      case False
      then have j: "i - s < n" using i nle by (simp add: s_def)
      have "(take s result1 @ map2 (*) (drop s result1) fade_out) ! i
              = result1 ! i * ramp_down n (i - s)"
        using False i j nle
        by (simp add: nth_append lr1 length_linspace_vals s_def fade_out_def
            linspace_vals_down)
      then show ?thesis
        using False r1 [OF i] spec [OF i] by simp
    qed
  qed
  then show ?thesis using run by simp
qed

lemma apply_fade_zero_nonempty:
  "audio_data \<noteq> [] \<Longrightarrow> apply_fade audio_data 0 = Inl ValueError"
  by (simp add: apply_fade_def Let_def linspace_def linspace_vals_def imul_def
      neg_slice_start_def)

text \<open>
  C6. The claim covers every \<open>fadeSamples\<close>. With \<open>fade_samples = 0\<close> no sample is to be
  faded, but the program does not return the block: the slice \<^verbatim>\<open>result[-0:]\<close> is the
  whole array, its in-place product with the empty ramp has mismatched shapes, and the
  call raises \<^verbatim>\<open>ValueError\<close> on every non-empty block.
\<close>

theorem apply_fade_zero_samples_raises:
  "apply_fade [1, 1, 1] 0 = Inl ValueError"
  by (rule apply_fade_zero_nonempty) simp

section \<open>Streaming\<close>

lemma lfilter_length: "length (fst (lfilter b a xs z)) = length xs"
proof (induction xs arbitrary: z)
  case Nil
  then show ?case by simp
next
  case (Cons x xs)
  obtain y z1 where st: "lfilter_step b a z x = (y, z1)"
    by (cases "lfilter_step b a z x")
  obtain ys zf where r: "lfilter b a xs z1 = (ys, zf)"
    by (cases "lfilter b a xs z1")
  have "length ys = length xs"
    using Cons.IH [of z1] r by simp
  then show ?case using st r by simp
qed

lemma lfilter_append:
  "lfilter b a (xs @ ys) z =
     (case lfilter b a xs z of (o1, z1) \<Rightarrow>
        case lfilter b a ys z1 of (o2, z2) \<Rightarrow> (o1 @ o2, z2))"
  by (induction xs arbitrary: z) (simp_all split: prod.splits)

lemma filter_band_length:
  "filter_band b a s xs = Inr (y, zf) \<Longrightarrow> length y = length xs"
  using lfilter_length [of b a xs]
  by (auto simp add: filter_band_def split: option.splits sum.splits list.splits)
     (metis fst_conv)+

lemma filter_band_split:
  assumes "ys \<noteq> []" and "filter_band b a s ys = Inr (y1, zf1)"
  shows "filter_band b a s (ys @ zs)
           = Inr (y1 @ fst (lfilter b a zs zf1), snd (lfilter b a zs zf1))"
proof (cases s)
  case None
  obtain x0 rest where ys: "ys = x0 # rest"
    using assms(1) by (cases ys) auto
  from assms(2) None obtain zi where zi: "lfilter_zi b a = Inr zi"
    and run: "lfilter b a ys (fst zi * x0, snd zi * x0) = (y1, zf1)"
    by (auto simp add: filter_band_def ys split: sum.splits)
  have "filter_band b a s (ys @ zs) = Inr (lfilter b a (ys @ zs) (fst zi * x0, snd zi * x0))"
    using None zi by (simp add: filter_band_def ys)
  then show ?thesis
    using run by (simp add: lfilter_append split: prod.splits)
next
  case (Some z)
  with assms(2) have run: "lfilter b a ys z = (y1, zf1)"
    by (simp add: filter_band_def)
  have "filter_band b a s (ys @ zs) = Inr (lfilter b a (ys @ zs) z)"
    using Some by (simp add: filter_band_def)
  then show ?thesis
    using run by (simp add: lfilter_append split: prod.splits)
qed

lemma band_loop_below:
  "band_loop sr bs i x st = (r, st1) \<Longrightarrow> j < i \<Longrightarrow> st1 ! j = st ! j"
proof (induction bs arbitrary: i x st)
  case Nil
  then show ?case by simp
next
  case (Cons band rest)
  obtain b a where ba: "get_filter_coefficients band sr = (b, a)"
    by (cases "get_filter_coefficients band sr")
  show ?case
  proof (cases "length st \<le> i")
    case True
    with Cons.prems ba show ?thesis by simp
  next
    case False
    show ?thesis
    proof (cases "filter_band b a (st ! i) x")
      case (Inl e)
      with Cons.prems ba False show ?thesis by simp
    next
      case (Inr yz)
      obtain y zf where yz: "yz = (y, zf)" by (cases yz)
      from Cons.prems(1) ba False Inr yz
      have "band_loop sr rest (Suc i) y (st[i := Some zf]) = (r, st1)" by simp
      from Cons.IH [OF this] Cons.prems(2)
      have "st1 ! j = (st[i := Some zf]) ! j" by simp
      then show ?thesis using Cons.prems(2) by simp
    qed
  qed
qed

lemma band_loop_update_below:
  "j < i \<Longrightarrow>
   band_loop sr bs i x (st[j := v]) =
     (case band_loop sr bs i x st of (r, st1) \<Rightarrow> (r, st1[j := v]))"
proof (induction bs arbitrary: i x st)
  case Nil
  then show ?case by simp
next
  case (Cons band rest)
  obtain b a where ba: "get_filter_coefficients band sr = (b, a)"
    by (cases "get_filter_coefficients band sr")
  from Cons.prems have ne: "i \<noteq> j" and lt: "j < Suc i" by simp_all
  have swap: "\<And>w. st[j := v, i := w] = st[i := w, j := v]"
    using ne by (simp add: list_update_swap)
  show ?case
    using ba ne Cons.IH [OF lt]
    by (simp add: swap split: sum.splits prod.splits)
qed

lemma band_loop_split:
  assumes "ys \<noteq> []" and "band_loop sr bs i ys st = (Inr o1, st1)"
  shows "\<exists>o2 st2. band_loop sr bs i zs st1 = (Inr o2, st2)
           \<and> band_loop sr bs i (ys @ zs) st = (Inr (o1 @ o2), st2)"
  using assms
proof (induction bs arbitrary: i ys zs st o1 st1)
  case Nil
  then show ?case by simp
next
  case (Cons band rest)
  obtain b a where ba: "get_filter_coefficients band sr = (b, a)"
    by (cases "get_filter_coefficients band sr")
  from Cons.prems(2) ba have i: "i < length st"
    by (auto split: if_splits)
  from Cons.prems(2) ba i obtain y1 zf1 where
    fb: "filter_band b a (st ! i) ys = Inr (y1, zf1)"
    and rest: "band_loop sr rest (Suc i) y1 (st[i := Some zf1]) = (Inr o1, st1)"
    by (auto split: sum.splits)
  obtain y2 zf2 where l2: "lfilter b a zs zf1 = (y2, zf2)"
    by (cases "lfilter b a zs zf1")
  have y1: "y1 \<noteq> []"
    using filter_band_length [OF fb] Cons.prems(1) by auto
  have whole_fb: "filter_band b a (st ! i) (ys @ zs) = Inr (y1 @ y2, zf2)"
    using filter_band_split [OF Cons.prems(1) fb, of zs] l2 by simp
  have len1: "length st1 = length st"
    using band_loop_length [of sr rest "Suc i" y1 "st[i := Some zf1]"] rest by simp
  have st1i: "st1 ! i = Some zf1"
    using band_loop_below [OF rest, of i] i by simp
  from Cons.IH [OF y1 rest, of y2] obtain o2 st2 where
    second: "band_loop sr rest (Suc i) y2 st1 = (Inr o2, st2)"
    and whole: "band_loop sr rest (Suc i) (y1 @ y2) (st[i := Some zf1]) = (Inr (o1 @ o2), st2)"
    by blast
  have "band_loop sr (band # rest) i zs st1 = band_loop sr rest (Suc i) y2 (st1[i := Some zf2])"
    using ba i len1 st1i l2 by (simp add: filter_band_def)
  also have "\<dots> = (Inr o2, st2[i := Some zf2])"
    using band_loop_update_below [of i "Suc i" sr rest y2 st1 "Some zf2"] second by simp
  finally have A: "band_loop sr (band # rest) i zs st1 = (Inr o2, st2[i := Some zf2])" .
  have "band_loop sr (band # rest) i (ys @ zs) st
          = band_loop sr rest (Suc i) (y1 @ y2) (st[i := Some zf2])"
    using ba i whole_fb by simp
  also have "st[i := Some zf2] = (st[i := Some zf1])[i := Some zf2]"
    by simp
  also have "band_loop sr rest (Suc i) (y1 @ y2) ((st[i := Some zf1])[i := Some zf2])
               = (Inr (o1 @ o2), st2[i := Some zf2])"
    using band_loop_update_below [of i "Suc i" sr rest "y1 @ y2" "st[i := Some zf1]" "Some zf2"]
      whole by simp
  finally have B: "band_loop sr (band # rest) i (ys @ zs) st
                     = (Inr (o1 @ o2), st2[i := Some zf2])" .
  show ?case using A B by blast
qed

text \<open>
  Streaming continuity: when the first sub-block is not empty and the chain returns on
  it, the chain then returns on the second sub-block, and the two outputs concatenated
  are the output of one call on the whole signal; the final states agree as well. The
  initial condition of a band without state is taken from the first sample of the
  stream only.
\<close>

lemma streaming_continuity:
  assumes "ys \<noteq> []" and "process_block p ys = (Inr o1, p1)"
  shows "\<exists>o2 p2. process_block p1 zs = (Inr o2, p2)
           \<and> process_block p (ys @ zs) = (Inr (o1 @ o2), p2)"
proof (cases "length (bands p) = 0")
  case True
  with assms(2) have "o1 = ys" "p1 = p" by (simp_all add: process_block_def)
  then show ?thesis using True by (simp add: process_block_def)
next
  case False
  obtain r st1 where l: "band_loop (sample_rate p) (bands p) 0 ys (filter_states p) = (r, st1)"
    by (cases "band_loop (sample_rate p) (bands p) 0 ys (filter_states p)")
  from assms(2) False l have r: "r = Inr o1" and p1: "p1 = p\<lparr>filter_states := st1\<rparr>"
    by (simp_all add: process_block_def)
  from band_loop_split [OF assms(1) l [unfolded r], of zs] obtain o2 st2 where
    second: "band_loop (sample_rate p) (bands p) 0 zs st1 = (Inr o2, st2)"
    and whole: "band_loop (sample_rate p) (bands p) 0 (ys @ zs) (filter_states p)
                  = (Inr (o1 @ o2), st2)"
    by blast
  have "process_block p1 zs = (Inr o2, p\<lparr>filter_states := st2\<rparr>)"
    using False second by (simp add: process_block_def p1)
  moreover have "process_block p (ys @ zs) = (Inr (o1 @ o2), p\<lparr>filter_states := st2\<rparr>)"
    using False whole by (simp add: process_block_def)
  ultimately show ?thesis by blast
qed

lemma filter_band_valid:
  assumes "valid_band sr band" and "xs \<noteq> []"
  shows "\<exists>y zf. filter_band (fst (get_filter_coefficients band sr))
                   (snd (get_filter_coefficients band sr)) s xs = Inr (y, zf)"
proof -
  obtain zi where "lfilter_zi (fst (get_filter_coefficients band sr))
                     (snd (get_filter_coefficients band sr)) = Inr zi"
    using valid_band_lfilter_zi [OF assms(1)] by blast
  moreover obtain x0 rest where "xs = x0 # rest"
    using assms(2) by (cases xs) auto
  ultimately have "\<exists>z. filter_band (fst (get_filter_coefficients band sr))
                        (snd (get_filter_coefficients band sr)) s xs
                      = Inr (lfilter (fst (get_filter_coefficients band sr))
                               (snd (get_filter_coefficients band sr)) xs z)"
    by (cases s) (auto simp add: filter_band_def simp del: lfilter.simps)
  then show ?thesis
    by (metis surj_pair)
qed

lemma band_loop_valid:
  assumes "\<forall>band \<in> set bs. valid_band sr band" and "i + length bs \<le> length st"
    and "xs \<noteq> []"
  shows "\<exists>out st1. band_loop sr bs i xs st = (Inr out, st1) \<and> length out = length xs"
  using assms
proof (induction bs arbitrary: i xs st)
  case Nil
  then show ?case by simp
next
  case (Cons band rest)
  obtain b a where ba: "get_filter_coefficients band sr = (b, a)"
    by (cases "get_filter_coefficients band sr")
  from Cons.prems have v: "valid_band sr band" and i: "i < length st" by simp_all
  obtain y zf where fb: "filter_band b a (st ! i) xs = Inr (y, zf)"
    using filter_band_valid [OF v Cons.prems(3), of "st ! i"] ba by auto
  have ly: "length y = length xs" by (rule filter_band_length [OF fb])
  with Cons.prems(3) have y: "y \<noteq> []" by auto
  have "\<exists>out st1. band_loop sr rest (Suc i) y (st[i := Some zf]) = (Inr out, st1)
          \<and> length out = length y"
    using Cons.prems by (intro Cons.IH [OF _ _ y]) simp_all
  then show ?case
    using ba i fb ly by simp
qed

lemma process_block_valid:
  assumes "\<forall>band \<in> set (bands p). valid_band (sample_rate p) band"
    and "length (bands p) = length (filter_states p)" and "xs \<noteq> []"
  shows "\<exists>out p1. process_block p xs = (Inr out, p1) \<and> length out = length xs"
proof (cases "length (bands p) = 0")
  case True
  then show ?thesis by (simp add: process_block_def)
next
  case False
  obtain out st1 where
    "band_loop (sample_rate p) (bands p) 0 xs (filter_states p) = (Inr out, st1)"
    and "length out = length xs"
    using band_loop_valid [OF assms(1) _ assms(3), of 0 "filter_states p"] assms(2) by auto
  then show ?thesis
    using False by (simp add: process_block_def)
qed

text \<open>
  C3. The claim covers every split of the signal. The split whose first sub-block is
  empty is not reproduced by a chain whose band has no state yet: the call on the empty
  sub-block raises \<^verbatim>\<open>IndexError\<close> (the read of \<open>processed[0]\<close>), while the call on the
  whole signal returns a block of the signal's length. For every split with a non-empty
  first sub-block, \<open>streaming_continuity\<close> above gives the claimed equality.
\<close>

theorem streaming_split_empty_first_block:
  "fst (process_block (add_band (AudioProcessor_init 44100) 1000 6 1) []) = Inl IndexError
   \<and> (\<exists>out p1. process_block (add_band (AudioProcessor_init 44100) 1000 6 1) ([] @ [1, 2])
                   = (Inr out, p1) \<and> length out = 2)"
proof -
  define p0 where "p0 = add_band (AudioProcessor_init 44100) 1000 6 1"
  have v: "valid_band 44100 \<lparr>frequency = 1000, gain_db = 6, q_factor = 1\<rparr>"
    by (simp add: valid_band_def)
  have sr: "sample_rate p0 = 44100"
    and bs: "bands p0 = [\<lparr>frequency = 1000, gain_db = 6, q_factor = 1\<rparr>]"
    and st: "filter_states p0 = [None]"
    by (simp_all add: p0_def add_band_def AudioProcessor_init_def)
  have "process_block p0 [] = (Inl IndexError, p0)"
    using v by (intro process_block_empty_uninitialized [OF _ bs st]) (simp add: sr)
  moreover have "\<exists>out p1. process_block p0 [1, 2] = (Inr out, p1)
                    \<and> length out = length [1, 2 :: real]"
    using v by (intro process_block_valid) (simp_all add: sr bs st)
  then have "\<exists>out p1. process_block p0 ([] @ [1, 2]) = (Inr out, p1) \<and> length out = 2"
    by (simp add: numeral_2_eq_2)
  ultimately show ?thesis
    unfolding p0_def by (simp only: fst_conv simp_thms)
qed

section \<open>Empty blocks on the other paths\<close>

lemma process_block_empty_no_bands:
  "bands p = [] \<Longrightarrow> process_block p [] = (Inr [], p)"
  by (simp add: process_block_def)

lemma band_loop_empty_active:
  assumes "i + length bs \<le> length st"
    and "\<forall>j. i \<le> j \<and> j < i + length bs \<longrightarrow> st ! j \<noteq> None"
  shows "band_loop sr bs i [] st = (Inr [], st)"
  using assms
proof (induction bs arbitrary: i)
  case Nil
  then show ?case by simp
next
  case (Cons band rest)
  obtain b a where ba: "get_filter_coefficients band sr = (b, a)"
    by (cases "get_filter_coefficients band sr")
  from Cons.prems have i: "i < length st" by simp
  from Cons.prems(2) obtain z where z: "st ! i = Some z"
    by (cases "st ! i") auto
  have upd: "st[i := Some z] = st"
    using z by (metis list_update_id)
  have "band_loop sr rest (Suc i) [] st = (Inr [], st)"
    using Cons.prems by (intro Cons.IH) auto
  then show ?case
    using ba i z upd by (simp add: filter_band_def)
qed

lemma process_block_empty_active:
  assumes "length (bands p) = length (filter_states p)"
    and "\<forall>s \<in> set (filter_states p). s \<noteq> None"
  shows "process_block p [] = (Inr [], p)"
proof (cases "length (bands p) = 0")
  case True
  then show ?thesis by (simp add: process_block_def)
next
  case False
  have "band_loop (sample_rate p) (bands p) 0 [] (filter_states p) = (Inr [], filter_states p)"
    using assms by (intro band_loop_empty_active) auto
  then show ?thesis
    using False by (simp add: process_block_def)
qed

section \<open>Worked examples\<close>

text \<open>
  A band at a quarter of the sample rate with \<open>Q = 1/2\<close> and a gain of 20 dB: \<open>w0 = pi/2\<close>,
  \<open>alpha = 1\<close> and the linear gain is 10, so \<open>b0 = (1 + 10) / (1 + 1/10) = 10\<close>. The
  square-root variant of the formula would give another value.
\<close>

lemma get_filter_coefficients_quarter_rate:
  "get_filter_coefficients \<lparr>frequency = 11025, gain_db = 20, q_factor = 1 / 2\<rparr> 44100
     = ((10, 0, - (90 / 11)), (1, 0, 9 / 11))"
proof -
  have w: "2 * pi * 11025 / 44100 = pi / 2" by simp
  have g: "(10::real) powr (20 / 20) = 10" by simp
  show ?thesis
    unfolding get_filter_coefficients_def Let_def
    by (simp add: w g)
qed

text \<open>
  The fade of 1000 ones over 100 samples starts and ends at 0 and is 1 in the middle;
  with three samples and a fade of three the middle sample carries both factors
  \<open>1/2\<close>.
\<close>

lemma apply_fade_ones:
  "\<exists>out. apply_fade (replicate 1000 1) 100 = Inr out \<and> length out = 1000
         \<and> out ! 0 = 0 \<and> out ! 999 = 0 \<and> out ! 500 = 1"
proof -
  have run: "apply_fade (replicate 1000 1) 100 = Inr (spec_applyFade (replicate 1000 1) 100)"
    using apply_fade_positive [of 100 "replicate 1000 1"] by simp
  have nth: "spec_applyFade (replicate 1000 1) 100 ! i
               = (if i < 100 then ramp_up 100 i else 1)
                   * (if 900 \<le> i then ramp_down 100 (i - 900) else 1)"
    if "i < 1000" for i
    using that by (simp add: spec_applyFade_def Let_def)
  have "length (spec_applyFade (replicate 1000 1) 100) = 1000"
    by (simp add: spec_applyFade_def Let_def)
  moreover have "spec_applyFade (replicate 1000 1) 100 ! 0 = 0"
    by (simp add: nth ramp_up_def)
  moreover have "spec_applyFade (replicate 1000 1) 100 ! 999 = 0"
    by (simp add: nth ramp_down_def)
  moreover have "spec_applyFade (replicate 1000 1) 100 ! 500 = 1"
    by (simp add: nth)
  ultimately show ?thesis using run by simp
qed

lemma apply_fade_overlap:
  "apply_fade [1, 1, 1] 3 = Inr [0, 1 / 4, 0]"
  by (simp add: apply_fade_def Let_def linspace_def linspace_vals_def imul_def
      neg_slice_start_def upt_rec numeral_3_eq_3)

end
